theory Spec2Isabelle
  imports Main "HOL-Library.Log_Nat"
begin

section \<open>Data model (main.py, lines 16-47)\<close>

text \<open>
  \<^verbatim>\<open>class FeedbackType(str, enum.Enum)\<close>: two members, whose values are the strings a
  request carries.
\<close>

datatype FeedbackType = RECLAMACAO | ELOGIO

fun FeedbackType_value :: "FeedbackType \<Rightarrow> string" where
  "FeedbackType_value RECLAMACAO = ''reclamacao''"
| "FeedbackType_value ELOGIO = ''elogio''"

text \<open>A \<^verbatim>\<open>datetime.datetime\<close> is a point on the server's clock.\<close>

type_synonym datetime = int

text \<open>
  \<^verbatim>\<open>FeedbackBase\<close>, \<^verbatim>\<open>Company\<close>, \<^verbatim>\<open>Feedback(FeedbackBase)\<close>, \<^verbatim>\<open>FeedbackCreate(FeedbackBase)\<close> and
  \<^verbatim>\<open>Reputation\<close>. The two primary keys \<^verbatim>\<open>id\<close> are the fields \<open>id_c\<close> and \<open>id_f\<close>
  (\<open>id\<close> is the identity function of HOL), and \<^verbatim>\<open>Reputation.company_id\<close> is
  \<open>company_id_r\<close>. An \<^verbatim>\<open>Optional[t]\<close> is a \<open>t option\<close>; a Python \<^verbatim>\<open>int\<close> is an \<open>int\<close>;
  a \<^verbatim>\<open>float\<close> is the rational number the double stands for. The relationship
  attributes \<^verbatim>\<open>feedbacks\<close> and \<^verbatim>\<open>company\<close> are not columns and are not serialized; they are
  left out.
\<close>

record FeedbackBase =
  type :: FeedbackType
  rating :: int
  comment :: "string option"
  company_id :: "int option"

record Company =
  id_c :: "int option"
  name :: string
  industry :: "string option"

record Feedback = FeedbackBase +
  id_f :: "int option"
  timestamp :: datetime

type_synonym FeedbackCreate = FeedbackBase

record Reputation =
  company_id_r :: int
  company_name :: string
  average_rating :: "rat option"
  total_feedbacks :: int
  feedback_with_rating_count :: int

section \<open>Errors\<close>

text \<open>
  \<^verbatim>\<open>HTTPException(status_code, detail)\<close> is what the handlers raise. A request body that
  fails the declared field constraints never reaches a handler: the framework answers
  with its validation error, which lists the fields that failed. An exception no
  handler catches is \<open>Unhandled\<close>: it ends the request, the session is closed with
  nothing committed, and the client is answered with a server error.
\<close>

datatype py_exception = OverflowError | ZeroDivisionError | InvalidRequestError

datatype error =
  HTTPException int string
| RequestValidationError "string list"
| Unhandled py_exception

definition HTTP_404_NOT_FOUND :: int where
  "HTTP_404_NOT_FOUND = 404"

text \<open>
  The texts of the two \<^verbatim>\<open>detail\<close> messages, as the UTF-8 bytes of the response: the
  letter a with a tilde is the two bytes C3 A3.
\<close>

definition nao :: string where
  "nao = ''n'' @ [CHR 0xC3, CHR 0xA3] @ ''o''"

definition Empresa_nao_encontrada :: string where
  "Empresa_nao_encontrada = ''Empresa '' @ nao @ '' encontrada''"

text \<open>\<^verbatim>\<open>str(n)\<close> of an integer, and of \<^verbatim>\<open>None\<close>, as an f-string formats them.\<close>

fun str_nat :: "nat \<Rightarrow> string" where
  "str_nat n =
     (if n < 10 then [char_of (48 + n)]
      else str_nat (n div 10) @ [char_of (48 + n mod 10)])"

definition str_int :: "int \<Rightarrow> string" where
  "str_int i = (if i < 0 then ''-'' @ str_nat (nat (- i)) else str_nat (nat i))"

definition str_optional_int :: "int option \<Rightarrow> string" where
  "str_optional_int v = (case v of None \<Rightarrow> ''None'' | Some i \<Rightarrow> str_int i)"

definition Empresa_com_ID_nao_encontrada :: "int option \<Rightarrow> string" where
  "Empresa_com_ID_nao_encontrada v =
     ''Empresa com ID '' @ str_optional_int v @ '' '' @ nao @ '' encontrada.''"

section \<open>The store and the session\<close>

text \<open>
  The two tables \<^verbatim>\<open>company\<close> and \<^verbatim>\<open>feedback\<close>, each the list of its rows in insertion
  order. A row of a table has its primary key set.
\<close>

record database =
  table_company :: "Company list"
  table_feedback :: "Feedback list"

definition empty_database :: database where
  "empty_database = \<lparr>table_company = [], table_feedback = []\<rparr>"

text \<open>
  A \<^verbatim>\<open>Session(engine)\<close>: the store it reads and commits to, and the objects added to it
  and not yet flushed.
\<close>

record Session =
  bind :: database
  new :: "Feedback list"

definition Session_of :: "database \<Rightarrow> Session" where
  "Session_of engine = \<lparr>bind = engine, new = []\<rparr>"

text \<open>
  A value that a column of the store's integer type holds, and that can be bound as a
  parameter of a query: a signed 64-bit integer.
\<close>

definition int64 :: "int \<Rightarrow> bool" where
  "int64 i = (- (2 ^ 63) \<le> i \<and> i < 2 ^ 63)"

text \<open>
  \<^verbatim>\<open>session.get(Company, ident)\<close>: the row with that primary key, or \<^verbatim>\<open>None\<close>. A primary
  key is never NULL, so the identity \<^verbatim>\<open>None\<close> finds no row. The key is bound as a
  parameter of the query: a Python integer outside the signed 64-bit range cannot be
  converted, and the driver raises \<^verbatim>\<open>OverflowError\<close> before any row is read.
\<close>

definition session_get ::
  "int option \<Rightarrow> Session \<Rightarrow> (py_exception + Company option) \<times> Session" where
  "session_get ident session =
     (case ident of
        None \<Rightarrow> (Inr None, session)
      | Some k \<Rightarrow>
          if int64 k
          then (Inr (List.find (\<lambda>c. id_c c = Some k) (table_company (bind session))), session)
          else (Inl OverflowError, session))"

text \<open>\<^verbatim>\<open>session.exec(select(Company)).all()\<close>\<close>

definition exec_select_Company :: "Session \<Rightarrow> Company list \<times> Session" where
  "exec_select_Company session = (table_company (bind session), session)"

text \<open>\<^verbatim>\<open>session.exec(select(Feedback).where(Feedback.company_id == cid)).all()\<close>\<close>

definition exec_select_Feedback :: "int \<Rightarrow> Session \<Rightarrow> Feedback list \<times> Session" where
  "exec_select_Feedback cid session =
     (filter (\<lambda>f. FeedbackBase.company_id f = Some cid) (table_feedback (bind session)), session)"

text \<open>
  \<^verbatim>\<open>session.exec(select(Feedback.rating).where(Feedback.company_id == cid)).all()\<close>:
  the values of one column. A column value read from the store is \<^verbatim>\<open>None\<close> for NULL;
  \<^verbatim>\<open>rating: int\<close> declares the column NOT NULL, so every value read here is \<open>Some\<close>.
\<close>

definition exec_select_rating :: "int \<Rightarrow> Session \<Rightarrow> int option list \<times> Session" where
  "exec_select_rating cid session =
     (map (\<lambda>f. Some (rating f))
        (filter (\<lambda>f. FeedbackBase.company_id f = Some cid) (table_feedback (bind session))),
      session)"

text \<open>\<^verbatim>\<open>session.add(obj)\<close>\<close>

definition session_add :: "Feedback \<Rightarrow> Session \<Rightarrow> Session" where
  "session_add obj session = session\<lparr>new := new session @ [obj]\<rparr>"

text \<open>
  The key the store gives a row inserted without one: one more than the largest key of
  the table, 1 for an empty table.
\<close>

definition next_rowid :: "Feedback list \<Rightarrow> int" where
  "next_rowid rows = fold max (List.map_filter id_f rows) 0 + 1"

definition insert_row :: "Feedback \<Rightarrow> Feedback list \<Rightarrow> Feedback list" where
  "insert_row obj rows =
     rows @ [case id_f obj of
               None \<Rightarrow> obj\<lparr>id_f := Some (next_rowid rows)\<rparr>
             | Some k \<Rightarrow> obj]"

text \<open>
  \<^verbatim>\<open>session.commit()\<close>: the pending objects are inserted in the order they were added and
  the transaction is committed. The ORM writes each generated key back into its object;
  the function returns \<open>obj\<close> as the commit leaves it (the last row inserted for it), so
  that the caller's variable can be rebound.
\<close>

definition session_commit :: "Feedback \<Rightarrow> Session \<Rightarrow> Feedback \<times> Session" where
  "session_commit obj session =
     (let rows = table_feedback (bind session);
          rows' = fold insert_row (new session) rows;
          flushed = zip (new session) (drop (length rows) rows')
      in (case List.find (\<lambda>(pending, row). pending = obj) flushed of
            None \<Rightarrow> obj
          | Some (pending, row) \<Rightarrow> row,
          session\<lparr>bind := (bind session)\<lparr>table_feedback := rows'\<rparr>, new := []\<rparr>))"

text \<open>
  \<^verbatim>\<open>session.refresh(obj)\<close>: the attributes of \<open>obj\<close> are read again from its row, found
  by primary key; an object that has no row cannot be refreshed.
\<close>

definition session_refresh :: "Feedback \<Rightarrow> Session \<Rightarrow> (error + Feedback) \<times> Session" where
  "session_refresh obj session =
     (case List.find (\<lambda>row. id_f obj \<noteq> None \<and> id_f row = id_f obj) (table_feedback (bind session)) of
        None \<Rightarrow> (Inl (Unhandled InvalidRequestError), session)
      | Some row \<Rightarrow> (Inr row, session))"

text \<open>
  \<^verbatim>\<open>Depends(get_session)\<close>: the handler runs in a session of its own, opened on the
  engine and closed when the request ends. What was not committed is dropped with the
  session.
\<close>

definition get_session ::
  "(Session \<Rightarrow> 'a \<times> Session) \<Rightarrow> database \<Rightarrow> 'a \<times> database" where
  "get_session handler engine =
     (let (r, session) = handler (Session_of engine) in (r, bind session))"

section \<open>Python's float arithmetic\<close>

text \<open>
  A \<^verbatim>\<open>float\<close> is an IEEE 754 binary64 number: zero, or \<open>m * 2 ^ q\<close> with
  \<open>\<bar>m\<bar> < 2 ^ 53\<close> and \<open>- 1074 \<le> q\<close>, below \<open>2 ^ 1024\<close> in absolute value. Every operation
  rounds its exact result to the nearest such number, a tie going to the even \<open>m\<close>.
\<close>

definition round_half_even :: "rat \<Rightarrow> int" where
  "round_half_even y =
     (let f = \<lfloor>y\<rfloor>; r = y - of_int f
      in if r < 1 / 2 then f
         else if 1 / 2 < r then f + 1
         else if even f then f else f + 1)"

text \<open>\<open>\<lfloor>log\<^sub>2 (a / b)\<rfloor>\<close> for positive \<open>a\<close> and \<open>b\<close>, from the bit lengths.\<close>

definition floor_log2 :: "int \<Rightarrow> int \<Rightarrow> int" where
  "floor_log2 a b =
     (let d = bitlen a - bitlen b
      in if (2::rat) powi d \<le> of_int a / of_int b then d else d - 1)"

text \<open>
  The double nearest to the quotient \<open>a / b\<close> of two integers, \<open>0 < b\<close>, with no bound on
  the exponent from above: the spacing of the doubles around the quotient is \<open>2 ^ (e - 52)\<close>
  for \<open>e = \<lfloor>log\<^sub>2 \<bar>a / b\<bar>\<rfloor>\<close>, and \<open>2 ^ - 1074\<close> below \<open>2 ^ - 1022\<close>.
\<close>

definition double_of_quotient :: "int \<Rightarrow> int \<Rightarrow> rat" where
  "double_of_quotient a b =
     (if a = 0 then 0
      else
        let e = max (floor_log2 \<bar>a\<bar> b) (- 1022);
            u = (2::rat) powi (e - 52)
        in of_int (sgn a) * of_int (round_half_even (of_int \<bar>a\<bar> / of_int b / u)) * u)"

text \<open>
  \<^verbatim>\<open>a / b\<close> of two Python integers: the correctly rounded quotient;
  \<^verbatim>\<open>ZeroDivisionError\<close> for \<open>b = 0\<close>, \<^verbatim>\<open>OverflowError\<close> when the result is too large for
  a float.
\<close>

definition int_truediv :: "int \<Rightarrow> int \<Rightarrow> py_exception + rat" where
  "int_truediv a b =
     (if b = 0 then Inl ZeroDivisionError
      else
        let x = double_of_quotient (a * sgn b) \<bar>b\<bar>
        in if 2 ^ 1024 \<le> \<bar>x\<bar> then Inl OverflowError else Inr x)"

text \<open>
  \<^verbatim>\<open>round(x, ndigits)\<close> of a float, for the small non-negative \<open>ndigits\<close> of this program:
  the decimal with \<open>ndigits\<close> places nearest to the exact value of \<open>x\<close>, a tie going to
  the even last digit, converted back to the nearest double.
\<close>

definition float_round :: "rat \<Rightarrow> nat \<Rightarrow> rat" where
  "float_round x ndigits =
     double_of_quotient (round_half_even (x * 10 ^ ndigits)) (10 ^ ndigits)"

section \<open>Request validation (main.py, lines 20-24 and 39-40)\<close>

text \<open>
  The JSON body of \<^verbatim>\<open>POST /feedbacks\<close>, with fields of the JSON types the model
  declares: a string for \<^verbatim>\<open>type\<close>, an integer for \<^verbatim>\<open>rating\<close>; \<^verbatim>\<open>comment\<close> and
  \<^verbatim>\<open>company_id\<close> may be absent or null, which is \<open>None\<close>.
\<close>

record body =
  type_json :: string
  rating_json :: int
  comment_json :: "string option"
  company_id_json :: "int option"

text \<open>The member of the enum with a given value, as the validation looks it up.\<close>

definition FeedbackType_of_value :: "string \<Rightarrow> FeedbackType option" where
  "FeedbackType_of_value s =
     List.find (\<lambda>t. FeedbackType_value t = s) [RECLAMACAO, ELOGIO]"

text \<open>
  The validation of a body as a \<^verbatim>\<open>FeedbackCreate\<close>: \<^verbatim>\<open>type: FeedbackType\<close> and
  \<^verbatim>\<open>rating: int = Field(ge=1, le=5)\<close>. Every failing field is reported.
\<close>

definition validate_FeedbackCreate :: "body \<Rightarrow> error + FeedbackCreate" where
  "validate_FeedbackCreate b =
     (let errors =
            (if FeedbackType_of_value (type_json b) = None then [''type''] else []) @
            (if 1 \<le> rating_json b \<and> rating_json b \<le> 5 then [] else [''rating''])
      in case FeedbackType_of_value (type_json b) of
           Some t \<Rightarrow>
             if errors = []
             then Inr \<lparr>type = t, rating = rating_json b, comment = comment_json b,
                       company_id = company_id_json b\<rparr>
             else Inl (RequestValidationError errors)
         | None \<Rightarrow> Inl (RequestValidationError errors))"

section \<open>The handlers (main.py, lines 81-144)\<close>

text \<open>\<^verbatim>\<open>get_companies\<close>\<close>

definition get_companies :: "Session \<Rightarrow> (error + Company list) \<times> Session" where
  "get_companies session =
     (let (companies, session) = exec_select_Company session
      in (Inr companies, session))"

text \<open>\<^verbatim>\<open>get_feedbacks_for_company\<close>\<close>

definition get_feedbacks_for_company ::
  "int \<Rightarrow> Session \<Rightarrow> (error + Feedback list) \<times> Session" where
  "get_feedbacks_for_company cid session =
     (case session_get (Some cid) session of
        (Inl e, session) \<Rightarrow> (Inl (Unhandled e), session)
      | (Inr company, session) \<Rightarrow>
          if company = None
          then (Inl (HTTPException HTTP_404_NOT_FOUND Empresa_nao_encontrada), session)
          else
            let (feedbacks, session) = exec_select_Feedback cid session
            in (Inr feedbacks, session))"

text \<open>
  \<^verbatim>\<open>Feedback.model_validate(feedback_data)\<close>: the fields of the validated request, no
  primary key yet, and the timestamp of the default factory, the clock's \<^verbatim>\<open>now\<close>.
\<close>

definition Feedback_model_validate :: "FeedbackCreate \<Rightarrow> datetime \<Rightarrow> Feedback" where
  "Feedback_model_validate feedback_data now =
     \<lparr>type = type feedback_data, rating = rating feedback_data,
      comment = comment feedback_data, company_id = FeedbackBase.company_id feedback_data,
      id_f = None, timestamp = now\<rparr>"

text \<open>\<^verbatim>\<open>create_feedback\<close>\<close>

definition create_feedback ::
  "FeedbackCreate \<Rightarrow> datetime \<Rightarrow> Session \<Rightarrow> (error + Feedback) \<times> Session" where
  "create_feedback feedback_data now session =
     (case session_get (FeedbackBase.company_id feedback_data) session of
        (Inl e, session) \<Rightarrow> (Inl (Unhandled e), session)
      | (Inr company, session) \<Rightarrow>
          if company = None
          then (Inl (HTTPException HTTP_404_NOT_FOUND
                       (Empresa_com_ID_nao_encontrada (FeedbackBase.company_id feedback_data))),
                session)
          else
            let db_feedback = Feedback_model_validate feedback_data now;
                session = session_add db_feedback session;
                (db_feedback, session) = session_commit db_feedback session
            in session_refresh db_feedback session)"

text \<open>\<^verbatim>\<open>get_company_reputation\<close>\<close>

definition get_company_reputation ::
  "int \<Rightarrow> Session \<Rightarrow> (error + Reputation) \<times> Session" where
  "get_company_reputation cid session =
     (case session_get (Some cid) session of
        (Inl e, session) \<Rightarrow> (Inl (Unhandled e), session)
      | (Inr None, session) \<Rightarrow>
          (Inl (HTTPException HTTP_404_NOT_FOUND Empresa_nao_encontrada), session)
      | (Inr (Some company), session) \<Rightarrow>
             let (ratings_result, session) = exec_select_rating cid session;
                 (all_feedbacks, session) = exec_select_Feedback cid session;
                 total = int (length all_feedbacks);
                 ratings = List.map_filter (\<lambda>r. r) ratings_result;
                 with_rating_count = int (length ratings)
             in if with_rating_count > 0
                then
                  (case int_truediv (sum_list ratings) with_rating_count of
                     Inl e \<Rightarrow> (Inl (Unhandled e), session)
                   | Inr average \<Rightarrow>
                       (Inr \<lparr>company_id_r = cid, company_name = name company,
                             average_rating = Some (float_round average 2),
                             total_feedbacks = total,
                             feedback_with_rating_count = with_rating_count\<rparr>,
                        session))
                else
                  (Inr \<lparr>company_id_r = cid, company_name = name company,
                        average_rating = None,
                        total_feedbacks = total,
                        feedback_with_rating_count = with_rating_count\<rparr>,
                   session))"

text \<open>\<^verbatim>\<open>read_root\<close>: the welcome message, with its two accented letters as UTF-8 bytes.\<close>

definition read_root :: string where
  "read_root =
     ''Bem-vindo '' @ [CHR 0xC3, CHR 0xA0] @ '' API de Feedback de Funcion'' @
     [CHR 0xC3, CHR 0xA1] @ ''rios! (Usando SQLite)''"

section \<open>The application\<close>

text \<open>
  \<^verbatim>\<open>lifespan\<close>, at startup: when the \<^verbatim>\<open>company\<close> table has no row, three companies are
  added and committed; the store gives them the keys 1, 2 and 3.
\<close>

definition lifespan :: "database \<Rightarrow> database" where
  "lifespan engine =
     (if table_company engine = []
      then engine\<lparr>table_company :=
             [\<lparr>id_c = Some 1, name = ''Empresa Alpha DB'', industry = Some ''Tecnologia''\<rparr>,
              \<lparr>id_c = Some 2, name = ''Consultoria Beta DB'', industry = Some ''Consultoria''\<rparr>,
              \<lparr>id_c = Some 3, name = ''Varejo Gamma DB'', industry = Some ''Varejo''\<rparr>]\<rparr>
      else engine)"

text \<open>
  The routes. A request is a route with its path parameter or its body; the response is
  what the handler returns, or the error that ended the request. The body of
  \<^verbatim>\<open>POST /feedbacks\<close> is validated before the handler is called; a body that fails is
  answered with the validation error and the handler does not run.
\<close>

datatype request =
  GET_companies
| GET_company_feedbacks int
| POST_feedbacks body
| GET_company_reputation int
| GET_root

datatype response =
  Companies "Company list"
| Feedbacks "Feedback list"
| Created Feedback
| Reputation_of Reputation
| Message string
| Failed error

definition respond ::
  "('a \<Rightarrow> response) \<Rightarrow> (error + 'a) \<times> database \<Rightarrow> response \<times> database" where
  "respond ok r = (case fst r of Inl e \<Rightarrow> Failed e | Inr v \<Rightarrow> ok v, snd r)"

definition app :: "request \<Rightarrow> datetime \<Rightarrow> database \<Rightarrow> response \<times> database" where
  "app req now engine =
     (case req of
        GET_companies \<Rightarrow> respond Companies (get_session get_companies engine)
      | GET_company_feedbacks cid \<Rightarrow>
          respond Feedbacks (get_session (get_feedbacks_for_company cid) engine)
      | POST_feedbacks b \<Rightarrow>
          (case validate_FeedbackCreate b of
             Inl e \<Rightarrow> (Failed e, engine)
           | Inr feedback_data \<Rightarrow>
               respond Created (get_session (create_feedback feedback_data now) engine))
      | GET_company_reputation cid \<Rightarrow>
          respond Reputation_of (get_session (get_company_reputation cid) engine)
      | GET_root \<Rightarrow> (Message read_root, engine))"

text \<open>A run of requests, each with the clock's time when it is served.\<close>

fun run :: "(request \<times> datetime) list \<Rightarrow> database \<Rightarrow> database" where
  "run [] engine = engine"
| "run ((req, now) # rest) engine = run rest (snd (app req now engine))"

section \<open>Properties of a store\<close>

text \<open>
  The company with a given key exists: the key is one the store holds, a signed 64-bit
  integer, and a row of the table has it. The key of a request resolves to a company;
  the key of a request is null or within the range of the store's keys.
\<close>

definition company_exists :: "database \<Rightarrow> int \<Rightarrow> bool" where
  "company_exists engine cid =
     (int64 cid \<and> (\<exists>c \<in> set (table_company engine). id_c c = Some cid))"

definition key_in_range :: "int option \<Rightarrow> bool" where
  "key_in_range ident = (case ident of None \<Rightarrow> True | Some k \<Rightarrow> int64 k)"

definition company_resolves :: "database \<Rightarrow> int option \<Rightarrow> bool" where
  "company_resolves engine ident =
     (case ident of None \<Rightarrow> False | Some cid \<Rightarrow> company_exists engine cid)"

text \<open>The name of the company with a given key (of the first such row).\<close>

definition company_name_of :: "database \<Rightarrow> int \<Rightarrow> string" where
  "company_name_of engine cid =
     (case List.find (\<lambda>c. id_c c = Some cid) (table_company engine) of
        None \<Rightarrow> []
      | Some c \<Rightarrow> name c)"

text \<open>The feedback rows of a company, and their ratings.\<close>

definition feedbacks_of :: "database \<Rightarrow> int \<Rightarrow> Feedback list" where
  "feedbacks_of engine cid =
     filter (\<lambda>f. FeedbackBase.company_id f = Some cid) (table_feedback engine)"

definition ratings_of :: "database \<Rightarrow> int \<Rightarrow> int list" where
  "ratings_of engine cid = map rating (feedbacks_of engine cid)"

text \<open>
  The exact mean of a list of ratings, a rational number, and two roundings of an exact
  number to an integer that differ from \<open>round_half_even\<close> in the direction of a tie, or
  not at all: a tie going up, and the numbers that are a tie, exactly halfway between two
  integers.
\<close>

definition mean :: "int list \<Rightarrow> rat" where
  "mean rs = of_int (sum_list rs) / of_int (int (length rs))"

definition round_half_up :: "rat \<Rightarrow> int" where
  "round_half_up y = \<lfloor>y + 1 / 2\<rfloor>"

definition halfway :: "rat \<Rightarrow> bool" where
  "halfway y = (y - of_int \<lfloor>y\<rfloor> = 1 / 2)"

text \<open>
  The average of a non-empty list of ratings in hundredths, as
  \<^verbatim>\<open>round(sum(ratings) / feedback_with_rating_count, 2)\<close> computes it before it converts
  back to a double: the double nearest to the quotient, times 100, rounded to an integer.
\<close>

definition hundredths :: "int list \<Rightarrow> int" where
  "hundredths rs =
     round_half_even (double_of_quotient (sum_list rs) (int (length rs)) * 100)"

text \<open>Every feedback row references a company that exists.\<close>

definition referential_integrity :: "database \<Rightarrow> bool" where
  "referential_integrity engine =
     list_all (\<lambda>f. company_resolves engine (FeedbackBase.company_id f)) (table_feedback engine)"

text \<open>The row a validated request is persisted as: its fields, the key the store gives it.\<close>

definition persisted :: "FeedbackCreate \<Rightarrow> datetime \<Rightarrow> database \<Rightarrow> Feedback" where
  "persisted feedback_data now engine =
     (Feedback_model_validate feedback_data now)
       \<lparr>id_f := Some (next_rowid (table_feedback engine))\<rparr>"

text \<open>The routes of method GET.\<close>

fun is_GET :: "request \<Rightarrow> bool" where
  "is_GET (POST_feedbacks b) = False"
| "is_GET req = True"

section \<open>Example stores and requests\<close>

text \<open>The store after the first startup, on an empty file.\<close>

definition seeded :: database where
  "seeded = lifespan empty_database"

definition elogio_4 :: body where
  "elogio_4 = \<lparr>type_json = ''elogio'', rating_json = 4, comment_json = None,
                company_id_json = Some 2\<rparr>"

definition reclamacao_5 :: body where
  "reclamacao_5 = \<lparr>type_json = ''reclamacao'', rating_json = 5,
                    comment_json = Some ''atraso'', company_id_json = Some 2\<rparr>"

definition elogio_3 :: body where
  "elogio_3 = \<lparr>type_json = ''elogio'', rating_json = 3, comment_json = None,
                company_id_json = Some 2\<rparr>"

text \<open>The seeded store after three feedbacks for company 2, rated 4, 5 and 3.\<close>

definition three_feedbacks :: database where
  "three_feedbacks =
     run [(POST_feedbacks elogio_4, 100), (POST_feedbacks reclamacao_5, 101),
          (POST_feedbacks elogio_3, 102)] seeded"

text \<open>
  The seeded store after forty feedbacks for company 1, thirty-seven rated 1 and three
  rated 2: their exact mean is 43/40 = 1.075.
\<close>

definition rated :: "int \<Rightarrow> body" where
  "rated r = \<lparr>type_json = ''elogio'', rating_json = r, comment_json = None,
               company_id_json = Some 1\<rparr>"

definition forty_feedbacks :: database where
  "forty_feedbacks =
     run (map (\<lambda>r. (POST_feedbacks (rated r), 100)) (replicate 37 1 @ replicate 3 2)) seeded"

section \<open>Running the handlers\<close>

lemma find_company_None:
  "int64 cid \<Longrightarrow>
   (List.find (\<lambda>c. id_c c = Some cid) (table_company engine) = None) =
   (\<not> company_exists engine cid)"
  by (auto simp add: find_None_iff company_exists_def)

lemma company_exists_int64: "company_exists engine cid \<Longrightarrow> int64 cid"
  by (simp add: company_exists_def)

lemma company_resolves_key_in_range: "company_resolves engine ident \<Longrightarrow> key_in_range ident"
  by (cases ident) (simp_all add: company_resolves_def key_in_range_def company_exists_int64)

lemma bind_Session_of: "bind (Session_of engine) = engine"
  by (simp add: Session_of_def)

lemma session_get_in_range:
  "key_in_range ident \<Longrightarrow>
   \<exists>c. session_get ident (Session_of engine) = (Inr c, Session_of engine) \<and>
       (c = None) = (\<not> company_resolves engine ident)"
  by (cases ident)
     (auto simp add: session_get_def company_resolves_def key_in_range_def
        find_company_None bind_Session_of)

lemma session_get_out_of_range:
  "\<not> key_in_range ident \<Longrightarrow>
   session_get ident (Session_of engine) = (Inl OverflowError, Session_of engine)"
  by (cases ident) (simp_all add: session_get_def key_in_range_def)

lemma map_filter_Some_rating:
  "List.map_filter (\<lambda>r. r) (map (\<lambda>f. Some (rating f)) fs) = map rating fs"
  by (induction fs) (simp_all add: List.map_filter_simps)

lemma get_companies_run:
  "get_session get_companies engine = (Inr (table_company engine), engine)"
  by (simp add: get_session_def get_companies_def exec_select_Company_def Session_of_def)

lemma get_feedbacks_run:
  "get_session (get_feedbacks_for_company cid) engine =
     (if company_exists engine cid then Inr (feedbacks_of engine cid)
      else if int64 cid then Inl (HTTPException 404 Empresa_nao_encontrada)
      else Inl (Unhandled OverflowError), engine)"
  by (auto simp add: get_session_def get_feedbacks_for_company_def session_get_def
      exec_select_Feedback_def Session_of_def find_company_None feedbacks_of_def
      HTTP_404_NOT_FOUND_def company_exists_int64)

lemma reputation_run_unknown:
  "\<not> company_exists engine cid \<Longrightarrow>
   get_session (get_company_reputation cid) engine =
     (if int64 cid then Inl (HTTPException 404 Empresa_nao_encontrada)
      else Inl (Unhandled OverflowError), engine)"
  using find_company_None [of cid engine]
  by (auto simp add: get_session_def get_company_reputation_def session_get_def
      Session_of_def HTTP_404_NOT_FOUND_def)

lemma reputation_run_known:
  "company_exists engine cid \<Longrightarrow>
   get_session (get_company_reputation cid) engine =
     (let rs = ratings_of engine cid; n = int (length rs)
      in if 0 < n
         then (case int_truediv (sum_list rs) n of
                 Inl e \<Rightarrow> Inl (Unhandled e)
               | Inr a \<Rightarrow>
                   Inr \<lparr>company_id_r = cid, company_name = company_name_of engine cid,
                        average_rating = Some (float_round a 2),
                        total_feedbacks = n, feedback_with_rating_count = n\<rparr>)
         else Inr \<lparr>company_id_r = cid, company_name = company_name_of engine cid,
                   average_rating = None,
                   total_feedbacks = n, feedback_with_rating_count = n\<rparr>,
      engine)"
  using find_company_None [of cid engine] company_exists_int64 [of engine cid]
  by (auto simp add: get_session_def get_company_reputation_def session_get_def
      Session_of_def exec_select_rating_def exec_select_Feedback_def map_filter_Some_rating
      ratings_of_def feedbacks_of_def company_name_of_def Let_def split: sum.splits)

subsection \<open>The key of a new row\<close>

lemma fold_max_start: "(a::int) \<le> fold max xs a"
proof (induction xs arbitrary: a)
  case Nil
  then show ?case by simp
next
  case (Cons y ys)
  have "a \<le> max y a" by simp
  also have "max y a \<le> fold max ys (max y a)" by (rule Cons.IH)
  finally show ?case by simp
qed

lemma fold_max_ge: "(x::int) \<in> set xs \<Longrightarrow> x \<le> fold max xs a"
proof (induction xs arbitrary: a)
  case Nil
  then show ?case by simp
next
  case (Cons y ys)
  show ?case
  proof (cases "x = y")
    case True
    have "y \<le> max y a" by simp
    also have "max y a \<le> fold max ys (max y a)" by (rule fold_max_start)
    finally show ?thesis using True by simp
  next
    case False
    with Cons.prems have "x \<in> set ys" by simp
    then show ?thesis using Cons.IH by simp
  qed
qed

lemma next_rowid_fresh: "f \<in> set rows \<Longrightarrow> id_f f \<noteq> Some (next_rowid rows)"
proof
  assume f: "f \<in> set rows" and eq: "id_f f = Some (next_rowid rows)"
  then have "next_rowid rows \<in> set (List.map_filter id_f rows)"
    by (force simp add: List.map_filter_def)
  then have "next_rowid rows \<le> fold max (List.map_filter id_f rows) 0"
    by (rule fold_max_ge)
  then show False by (simp add: next_rowid_def)
qed

lemma find_last_row:
  "\<forall>r \<in> set rows. id_f r \<noteq> id_f row \<Longrightarrow> id_f row \<noteq> None \<Longrightarrow>
   List.find (\<lambda>r. id_f row \<noteq> None \<and> id_f r = id_f row) (rows @ [row]) = Some row"
  by (induction rows) simp_all

lemma find_fresh_row:
  "id_f row = Some (next_rowid rows) \<Longrightarrow>
   List.find (\<lambda>r. id_f row \<noteq> None \<and> id_f r = id_f row) (rows @ [row]) = Some row"
  using next_rowid_fresh [of _ rows] by (intro find_last_row) auto

subsection \<open>Creating a feedback\<close>

lemma create_feedback_run_known:
  assumes "company_resolves engine (FeedbackBase.company_id d)"
  shows "get_session (create_feedback d now) engine =
     (Inr (persisted d now engine),
      engine\<lparr>table_feedback := table_feedback engine @ [persisted d now engine]\<rparr>)"
proof -
  let ?obj = "Feedback_model_validate d now"
  let ?rows = "table_feedback engine"
  let ?row = "persisted d now engine"
  let ?after = "\<lparr>bind = engine\<lparr>table_feedback := ?rows @ [?row]\<rparr>, new = []\<rparr>"
  from session_get_in_range [OF company_resolves_key_in_range [OF assms], of engine] assms
  obtain c where
    get: "session_get (FeedbackBase.company_id d) (Session_of engine) = (Inr c, Session_of engine)"
    and c: "c \<noteq> None"
    by auto
  have obj: "id_f ?obj = None"
    by (simp add: Feedback_model_validate_def)
  have ins: "insert_row ?obj ?rows = ?rows @ [?row]"
    by (simp add: insert_row_def obj persisted_def)
  have commit: "session_commit ?obj (session_add ?obj (Session_of engine)) = (?row, ?after)"
    by (simp add: session_commit_def session_add_def Session_of_def ins Let_def)
  have key: "id_f ?row = Some (next_rowid ?rows)"
    by (simp add: persisted_def)
  have refresh: "session_refresh ?row ?after = (Inr ?row, ?after)"
    using find_fresh_row [OF key] by (simp add: session_refresh_def)
  show ?thesis
    using c by (simp add: get_session_def create_feedback_def get commit refresh Let_def)
qed

lemma create_feedback_run_unknown:
  assumes "\<not> company_resolves engine (FeedbackBase.company_id d)"
  shows "get_session (create_feedback d now) engine =
     (if key_in_range (FeedbackBase.company_id d)
      then Inl (HTTPException 404
                  (Empresa_com_ID_nao_encontrada (FeedbackBase.company_id d)))
      else Inl (Unhandled OverflowError),
      engine)"
proof (cases "key_in_range (FeedbackBase.company_id d)")
  case True
  from session_get_in_range [OF True, of engine] assms
  have "session_get (FeedbackBase.company_id d) (Session_of engine) =
      (Inr None, Session_of engine)"
    by auto
  then show ?thesis
    using True
    by (simp add: get_session_def create_feedback_def HTTP_404_NOT_FOUND_def bind_Session_of)
next
  case False
  from session_get_out_of_range [OF False, of engine] show ?thesis
    using False by (simp add: get_session_def create_feedback_def bind_Session_of)
qed

subsection \<open>The routes\<close>

lemma app_GET_companies:
  "app GET_companies now engine = (Companies (table_company engine), engine)"
  by (simp add: app_def respond_def get_companies_run)

lemma app_GET_company_feedbacks:
  "app (GET_company_feedbacks cid) now engine =
     (if company_exists engine cid then Feedbacks (feedbacks_of engine cid)
      else if int64 cid then Failed (HTTPException 404 Empresa_nao_encontrada)
      else Failed (Unhandled OverflowError), engine)"
  by (simp add: app_def respond_def get_feedbacks_run)

lemma app_GET_company_reputation_unknown:
  "\<not> company_exists engine cid \<Longrightarrow>
   app (GET_company_reputation cid) now engine =
     (if int64 cid then Failed (HTTPException 404 Empresa_nao_encontrada)
      else Failed (Unhandled OverflowError), engine)"
  by (simp add: app_def respond_def reputation_run_unknown)

lemma app_GET_company_reputation_store:
  "snd (app (GET_company_reputation cid) now engine) = engine"
  by (cases "company_exists engine cid")
     (simp_all add: app_def respond_def reputation_run_unknown reputation_run_known)

lemma app_GET_store: "is_GET req \<Longrightarrow> snd (app req now engine) = engine"
  by (cases req)
     (simp_all add: app_GET_companies app_GET_company_feedbacks
        app_GET_company_reputation_store, simp add: app_def)

lemma app_GET_clock: "is_GET req \<Longrightarrow> app req now' engine = app req now engine"
  by (cases req) (simp_all add: app_def)

lemma run_GETs:
  "list_all (\<lambda>(req, now). is_GET req) between \<Longrightarrow> run between engine = engine"
  by (induction between arbitrary: engine) (auto simp add: app_GET_store)

lemma app_POST_invalid:
  "validate_FeedbackCreate b = Inl e \<Longrightarrow> app (POST_feedbacks b) now engine = (Failed e, engine)"
  by (simp add: app_def)

lemma app_POST_unknown:
  "validate_FeedbackCreate b = Inr d \<Longrightarrow>
   \<not> company_resolves engine (FeedbackBase.company_id d) \<Longrightarrow>
   app (POST_feedbacks b) now engine =
     (if key_in_range (FeedbackBase.company_id d)
      then Failed (HTTPException 404
                     (Empresa_com_ID_nao_encontrada (FeedbackBase.company_id d)))
      else Failed (Unhandled OverflowError),
      engine)"
  by (simp add: app_def respond_def create_feedback_run_unknown)

lemma app_POST_known:
  "validate_FeedbackCreate b = Inr d \<Longrightarrow>
   company_resolves engine (FeedbackBase.company_id d) \<Longrightarrow>
   app (POST_feedbacks b) now engine =
     (Created (persisted d now engine),
      engine\<lparr>table_feedback := table_feedback engine @ [persisted d now engine]\<rparr>)"
  by (simp add: app_def respond_def create_feedback_run_known)


subsection \<open>Validation\<close>

lemma FeedbackType_of_value_Some:
  "(FeedbackType_of_value s \<noteq> None) = (s = ''reclamacao'' \<or> s = ''elogio'')"
  by (auto simp add: FeedbackType_of_value_def)

lemma validate_rating_out_of_range:
  "\<not> (1 \<le> rating_json b \<and> rating_json b \<le> 5) \<Longrightarrow>
   \<exists>errs. ''rating'' \<in> set errs \<and>
     validate_FeedbackCreate b = Inl (RequestValidationError errs)"
  by (cases "FeedbackType_of_value (type_json b)")
     (auto simp add: validate_FeedbackCreate_def)

lemma validate_type_unknown:
  "FeedbackType_of_value (type_json b) = None \<Longrightarrow>
   \<exists>errs. ''type'' \<in> set errs \<and>
     validate_FeedbackCreate b = Inl (RequestValidationError errs)"
  by (simp add: validate_FeedbackCreate_def)

lemma validate_errors:
  "validate_FeedbackCreate b = Inl e \<Longrightarrow>
   e = RequestValidationError
         ((if FeedbackType_of_value (type_json b) = None then [''type''] else []) @
          (if 1 \<le> rating_json b \<and> rating_json b \<le> 5 then [] else [''rating'']))"
  by (cases "FeedbackType_of_value (type_json b)")
     (auto simp add: validate_FeedbackCreate_def split: if_splits)

lemma validate_ok:
  "1 \<le> rating_json b \<Longrightarrow> rating_json b \<le> 5 \<Longrightarrow>
   FeedbackType_of_value (type_json b) = Some t \<Longrightarrow>
   validate_FeedbackCreate b =
     Inr \<lparr>type = t, rating = rating_json b, comment = comment_json b,
          company_id = company_id_json b\<rparr>"
  by (simp add: validate_FeedbackCreate_def)

lemma validate_Inr:
  "validate_FeedbackCreate b = Inr d \<Longrightarrow>
   FeedbackBase.company_id d = company_id_json b \<and> rating d = rating_json b \<and>
   1 \<le> rating d \<and> rating d \<le> 5 \<and> FeedbackType_of_value (type_json b) = Some (type d)"
  by (cases "FeedbackType_of_value (type_json b)")
     (auto simp add: validate_FeedbackCreate_def split: if_splits)

subsection \<open>Referential integrity\<close>

lemma company_resolves_table_feedback:
  "company_resolves (engine\<lparr>table_feedback := rows\<rparr>) ident = company_resolves engine ident"
  by (simp add: company_resolves_def company_exists_def split: option.splits)

lemma company_id_persisted:
  "FeedbackBase.company_id (persisted d now engine) = FeedbackBase.company_id d"
  by (simp add: persisted_def Feedback_model_validate_def)

lemma rating_persisted: "rating (persisted d now engine) = rating d"
  by (simp add: persisted_def Feedback_model_validate_def)

lemma app_POST_cases:
  "(\<exists>e. app (POST_feedbacks b) now engine = (Failed e, engine)) \<or>
   (\<exists>d. validate_FeedbackCreate b = Inr d \<and>
        company_resolves engine (FeedbackBase.company_id d) \<and>
        app (POST_feedbacks b) now engine =
          (Created (persisted d now engine),
           engine\<lparr>table_feedback := table_feedback engine @ [persisted d now engine]\<rparr>))"
proof (cases "validate_FeedbackCreate b")
  case (Inl e)
  then show ?thesis by (simp add: app_POST_invalid)
next
  case (Inr d)
  then show ?thesis
    by (cases "company_resolves engine (FeedbackBase.company_id d)")
       (simp_all add: app_POST_known app_POST_unknown)
qed

lemma app_referential_integrity:
  assumes "referential_integrity engine"
  shows "referential_integrity (snd (app req now engine))"
proof (cases "is_GET req")
  case True
  then show ?thesis using assms by (simp add: app_GET_store)
next
  case False
  then obtain b where req: "req = POST_feedbacks b" by (cases req) simp_all
  from app_POST_cases [of b now engine] show ?thesis
  proof (elim disjE exE conjE)
    fix e assume "app (POST_feedbacks b) now engine = (Failed e, engine)"
    then show ?thesis using assms req by simp
  next
    fix d
    assume "company_resolves engine (FeedbackBase.company_id d)"
      and "app (POST_feedbacks b) now engine =
        (Created (persisted d now engine),
         engine\<lparr>table_feedback := table_feedback engine @ [persisted d now engine]\<rparr>)"
    then show ?thesis
      using assms req
      by (simp add: referential_integrity_def company_resolves_table_feedback
          company_id_persisted)
  qed
qed

lemma run_referential_integrity:
  "referential_integrity engine \<Longrightarrow> referential_integrity (run reqs engine)"
proof (induction reqs arbitrary: engine)
  case Nil
  then show ?case by simp
next
  case (Cons r reqs)
  obtain req now where r: "r = (req, now)" by (cases r)
  from Cons.prems have "referential_integrity (snd (app req now engine))"
    by (rule app_referential_integrity)
  then show ?case using Cons.IH r by simp
qed

lemma referential_integrity_seeded: "referential_integrity seeded"
  by (simp add: referential_integrity_def seeded_def lifespan_def empty_database_def)


section \<open>The claims about listing and creation\<close>

text \<open>
  Claim C3, as the code has it. A creation request whose \<^verbatim>\<open>company_id\<close> does not resolve
  to an existing company fails, and the store is unchanged: nothing is inserted. When the
  \<^verbatim>\<open>company_id\<close> is null or within the signed 64-bit range of the store's keys, the
  failure is the 404 exception whose detail names the id. This holds for the handler on
  every validated request, and so for the route on every body that passes validation.
\<close>

theorem create_feedback_unknown_company:
  "\<not> company_resolves engine (FeedbackBase.company_id feedback_data) \<Longrightarrow>
   snd (get_session (create_feedback feedback_data now) engine) = engine \<and>
   (\<exists>e. fst (get_session (create_feedback feedback_data now) engine) = Inl e) \<and>
   (key_in_range (FeedbackBase.company_id feedback_data) \<longrightarrow>
      get_session (create_feedback feedback_data now) engine =
        (Inl (HTTPException 404
           (''Empresa com ID '' @ str_optional_int (FeedbackBase.company_id feedback_data) @
            '' '' @ nao @ '' encontrada.'')), engine) \<and>
      (validate_FeedbackCreate b = Inr feedback_data \<longrightarrow>
       app (POST_feedbacks b) now engine =
         (Failed (HTTPException 404
           (''Empresa com ID '' @ str_optional_int (FeedbackBase.company_id feedback_data) @
            '' '' @ nao @ '' encontrada.'')), engine)))"
  by (simp add: create_feedback_run_unknown app_POST_unknown Empresa_com_ID_nao_encontrada_def)

theorem create_feedback_unknown_company_witness:
  "\<not> company_resolves three_feedbacks (Some 9) \<and> key_in_range (Some 9) \<and>
   validate_FeedbackCreate (elogio_4\<lparr>company_id_json := Some 9\<rparr>) =
     Inr \<lparr>type = ELOGIO, rating = 4, comment = None, company_id = Some 9\<rparr> \<and>
   app (POST_feedbacks (elogio_4\<lparr>company_id_json := Some 9\<rparr>)) 103 three_feedbacks =
     (Failed (HTTPException 404 (''Empresa com ID 9 '' @ nao @ '' encontrada.'')),
      three_feedbacks)"
proof -
  let ?d = "\<lparr>type = ELOGIO, rating = 4, comment = None, company_id = Some 9\<rparr>"
  have h: "\<not> company_resolves three_feedbacks (FeedbackBase.company_id ?d)"
    by code_simp
  have k: "key_in_range (FeedbackBase.company_id ?d)"
    by code_simp
  have v: "validate_FeedbackCreate (elogio_4\<lparr>company_id_json := Some 9\<rparr>) = Inr ?d"
    by code_simp
  have s: "str_optional_int (Some 9) = ''9''"
    by code_simp
  from create_feedback_unknown_company
         [OF h, of 103 "elogio_4\<lparr>company_id_json := Some 9\<rparr>"] v s h k
  show ?thesis by simp
qed

text \<open>
  The claim as the specification words it, Not-Found for every \<^verbatim>\<open>company_id\<close> that does not
  resolve, fails for an id outside the signed 64-bit range: the lookup cannot bind
  \<open>2 ^ 63\<close> as a parameter of its query, and the request ends with the unhandled
  \<^verbatim>\<open>OverflowError\<close>, not with the 404 exception. The store is unchanged here too.
\<close>

theorem create_feedback_out_of_range_counterexample:
  "\<not> company_resolves three_feedbacks (Some 9223372036854775808) \<and>
   validate_FeedbackCreate (elogio_4\<lparr>company_id_json := Some 9223372036854775808\<rparr>) =
     Inr \<lparr>type = ELOGIO, rating = 4, comment = None,
          company_id = Some 9223372036854775808\<rparr> \<and>
   get_session
     (create_feedback
        \<lparr>type = ELOGIO, rating = 4, comment = None,
         company_id = Some 9223372036854775808\<rparr> 103) three_feedbacks =
     (Inl (Unhandled OverflowError), three_feedbacks) \<and>
   app (POST_feedbacks (elogio_4\<lparr>company_id_json := Some 9223372036854775808\<rparr>)) 103
     three_feedbacks =
     (Failed (Unhandled OverflowError), three_feedbacks)"
  by code_simp

text \<open>
  Claim C4. For a company that exists and has no feedback row, the reputation has no
  average and both counts are 0.
\<close>

theorem reputation_no_feedback:
  "company_exists engine cid \<Longrightarrow> feedbacks_of engine cid = [] \<Longrightarrow>
   app (GET_company_reputation cid) now engine =
     (Reputation_of \<lparr>company_id_r = cid, company_name = company_name_of engine cid,
                     average_rating = None, total_feedbacks = 0,
                     feedback_with_rating_count = 0\<rparr>, engine)"
  by (simp add: app_def respond_def reputation_run_known ratings_of_def)

theorem reputation_no_feedback_witness:
  "company_exists three_feedbacks 1 \<and> feedbacks_of three_feedbacks 1 = [] \<and>
   app (GET_company_reputation 1) 103 three_feedbacks =
     (Reputation_of \<lparr>company_id_r = 1, company_name = ''Empresa Alpha DB'',
                     average_rating = None, total_feedbacks = 0,
                     feedback_with_rating_count = 0\<rparr>, three_feedbacks)"
proof -
  have h1: "company_exists three_feedbacks 1" by code_simp
  have h2: "feedbacks_of three_feedbacks 1 = []" by code_simp
  have n: "company_name_of three_feedbacks 1 = ''Empresa Alpha DB''" by code_simp
  from reputation_no_feedback [OF h1 h2, of 103] h1 h2 n show ?thesis by simp
qed

text \<open>
  Claim C5, as the code has it. For a company id that resolves to no company, the
  listing of feedbacks and the reputation both fail, with no list and no reputation
  object, and the store is unchanged. When the id is within the signed 64-bit range of
  the store's keys, the failure is the 404 exception.
\<close>

theorem unknown_company_not_found:
  "\<not> company_exists engine cid \<Longrightarrow>
   (\<exists>e. app (GET_company_feedbacks cid) now engine = (Failed e, engine)) \<and>
   (\<exists>e. app (GET_company_reputation cid) now engine = (Failed e, engine)) \<and>
   (int64 cid \<longrightarrow>
      app (GET_company_feedbacks cid) now engine =
        (Failed (HTTPException 404 Empresa_nao_encontrada), engine) \<and>
      app (GET_company_reputation cid) now engine =
        (Failed (HTTPException 404 Empresa_nao_encontrada), engine))"
  by (simp add: app_GET_company_feedbacks app_GET_company_reputation_unknown)

theorem unknown_company_not_found_witness:
  "\<not> company_exists seeded 7 \<and> int64 7 \<and>
   app (GET_company_feedbacks 7) 0 seeded =
     (Failed (HTTPException 404 Empresa_nao_encontrada), seeded) \<and>
   app (GET_company_reputation 7) 0 seeded =
     (Failed (HTTPException 404 Empresa_nao_encontrada), seeded)"
proof -
  have h: "\<not> company_exists seeded 7" by code_simp
  have k: "int64 7" by code_simp
  from unknown_company_not_found [OF h, of 0] h k show ?thesis by simp
qed

text \<open>
  The claim as the specification words it, Not-Found for every company id that does not
  resolve, fails for an id outside the signed 64-bit range: the lookup cannot bind
  \<open>2 ^ 63\<close> as a parameter of its query, and both requests end with the unhandled
  \<^verbatim>\<open>OverflowError\<close>, not with the 404 exception.
\<close>

theorem unknown_company_out_of_range_counterexample:
  "\<not> company_exists seeded 9223372036854775808 \<and>
   app (GET_company_feedbacks 9223372036854775808) 0 seeded =
     (Failed (Unhandled OverflowError), seeded) \<and>
   app (GET_company_reputation 9223372036854775808) 0 seeded =
     (Failed (Unhandled OverflowError), seeded)"
  by code_simp

text \<open>
  Claim C6. For an existing company, the listing returns the rows of the feedback table
  whose \<^verbatim>\<open>company_id\<close> is the queried id, all of them and no other row, each as often
  and in the order it is stored.
\<close>

theorem feedbacks_of_company_exactly:
  "company_exists engine cid \<Longrightarrow>
   \<exists>fs. app (GET_company_feedbacks cid) now engine = (Feedbacks fs, engine) \<and>
        set fs = {f \<in> set (table_feedback engine). FeedbackBase.company_id f = Some cid} \<and>
        fs = filter (\<lambda>f. FeedbackBase.company_id f = Some cid) (table_feedback engine)"
  by (simp add: app_GET_company_feedbacks feedbacks_of_def)

theorem feedbacks_of_company_exactly_witness:
  "company_exists three_feedbacks 2 \<and>
   (\<exists>fs. app (GET_company_feedbacks 2) 103 three_feedbacks = (Feedbacks fs, three_feedbacks) \<and>
        set fs = {f \<in> set (table_feedback three_feedbacks).
                    FeedbackBase.company_id f = Some 2} \<and>
        fs = filter (\<lambda>f. FeedbackBase.company_id f = Some 2)
               (table_feedback three_feedbacks)) \<and>
   length (table_feedback three_feedbacks) = 3"
proof -
  have h: "company_exists three_feedbacks 2" by code_simp
  have n: "length (table_feedback three_feedbacks) = 3" by code_simp
  from feedbacks_of_company_exactly [OF h, of 103] h n show ?thesis by simp
qed

text \<open>
  Claim C7. A rating from 1 to 5 passes validation: the validation never reports the
  field, and with a known type and a company that exists the request is persisted, as a
  new last row that carries the rating. A rating below 1 or above 5 is answered with the
  validation error that reports the field; the handler does not run and the store is
  unchanged.
\<close>

theorem rating_validation:
  "(1 \<le> rating_json b \<and> rating_json b \<le> 5 \<longrightarrow>
      (\<forall>errs. validate_FeedbackCreate b = Inl (RequestValidationError errs) \<longrightarrow>
         ''rating'' \<notin> set errs) \<and>
      (FeedbackType_of_value (type_json b) \<noteq> None \<and>
       company_resolves engine (company_id_json b) \<longrightarrow>
         (\<exists>fb. app (POST_feedbacks b) now engine =
                 (Created fb, engine\<lparr>table_feedback := table_feedback engine @ [fb]\<rparr>) \<and>
               rating fb = rating_json b))) \<and>
   (\<not> (1 \<le> rating_json b \<and> rating_json b \<le> 5) \<longrightarrow>
      (\<exists>errs. ''rating'' \<in> set errs \<and>
         validate_FeedbackCreate b = Inl (RequestValidationError errs) \<and>
         app (POST_feedbacks b) now engine = (Failed (RequestValidationError errs), engine)))"
proof (intro conjI impI allI)
  fix errs
  assume "1 \<le> rating_json b \<and> rating_json b \<le> 5"
    and "validate_FeedbackCreate b = Inl (RequestValidationError errs)"
  then show "''rating'' \<notin> set errs"
    using validate_errors [of b "RequestValidationError errs"] by (simp split: if_splits)
next
  assume r: "1 \<le> rating_json b \<and> rating_json b \<le> 5"
    and ok: "FeedbackType_of_value (type_json b) \<noteq> None \<and>
      company_resolves engine (company_id_json b)"
  then obtain t where t: "FeedbackType_of_value (type_json b) = Some t" by auto
  let ?d = "\<lparr>type = t, rating = rating_json b, comment = comment_json b,
             company_id = company_id_json b\<rparr>"
  have v: "validate_FeedbackCreate b = Inr ?d"
    using r t by (simp add: validate_ok)
  have "app (POST_feedbacks b) now engine =
      (Created (persisted ?d now engine),
       engine\<lparr>table_feedback := table_feedback engine @ [persisted ?d now engine]\<rparr>)"
    using ok by (intro app_POST_known [OF v]) simp
  moreover have "rating (persisted ?d now engine) = rating_json b"
    by (simp add: rating_persisted)
  ultimately show "\<exists>fb. app (POST_feedbacks b) now engine =
      (Created fb, engine\<lparr>table_feedback := table_feedback engine @ [fb]\<rparr>) \<and>
      rating fb = rating_json b"
    by blast
next
  assume "\<not> (1 \<le> rating_json b \<and> rating_json b \<le> 5)"
  then obtain errs where "''rating'' \<in> set errs"
    and v: "validate_FeedbackCreate b = Inl (RequestValidationError errs)"
    using validate_rating_out_of_range [of b] by blast
  then show "\<exists>errs. ''rating'' \<in> set errs \<and>
      validate_FeedbackCreate b = Inl (RequestValidationError errs) \<and>
      app (POST_feedbacks b) now engine = (Failed (RequestValidationError errs), engine)"
    using app_POST_invalid [OF v] by blast
qed

theorem rating_validation_witness:
  "(\<exists>fb. app (POST_feedbacks elogio_4) 100 seeded =
          (Created fb, seeded\<lparr>table_feedback := table_feedback seeded @ [fb]\<rparr>) \<and>
        rating fb = 4) \<and>
   (\<exists>errs. ''rating'' \<in> set errs \<and>
      app (POST_feedbacks (elogio_4\<lparr>rating_json := 6\<rparr>)) 100 seeded =
        (Failed (RequestValidationError errs), seeded)) \<and>
   (\<exists>errs. ''rating'' \<in> set errs \<and>
      app (POST_feedbacks (elogio_4\<lparr>rating_json := 0\<rparr>)) 100 seeded =
        (Failed (RequestValidationError errs), seeded))"
proof -
  have r: "1 \<le> rating_json elogio_4 \<and> rating_json elogio_4 \<le> 5"
    and v: "rating_json elogio_4 = 4"
    and ok: "FeedbackType_of_value (type_json elogio_4) \<noteq> None \<and>
      company_resolves seeded (company_id_json elogio_4)"
    by code_simp+
  have r6: "\<not> (1 \<le> rating_json (elogio_4\<lparr>rating_json := 6\<rparr>) \<and>
      rating_json (elogio_4\<lparr>rating_json := 6\<rparr>) \<le> 5)"
    and r0: "\<not> (1 \<le> rating_json (elogio_4\<lparr>rating_json := 0\<rparr>) \<and>
      rating_json (elogio_4\<lparr>rating_json := 0\<rparr>) \<le> 5)"
    by simp_all
  from rating_validation [of elogio_4 seeded 100] r ok
  have a: "\<exists>fb. app (POST_feedbacks elogio_4) 100 seeded =
          (Created fb, seeded\<lparr>table_feedback := table_feedback seeded @ [fb]\<rparr>) \<and>
        rating fb = rating_json elogio_4"
    by blast
  from rating_validation [of "elogio_4\<lparr>rating_json := 6\<rparr>" seeded 100] r6
  have b: "\<exists>errs. ''rating'' \<in> set errs \<and>
      app (POST_feedbacks (elogio_4\<lparr>rating_json := 6\<rparr>)) 100 seeded =
        (Failed (RequestValidationError errs), seeded)"
    by blast
  from rating_validation [of "elogio_4\<lparr>rating_json := 0\<rparr>" seeded 100] r0
  have c: "\<exists>errs. ''rating'' \<in> set errs \<and>
      app (POST_feedbacks (elogio_4\<lparr>rating_json := 0\<rparr>)) 100 seeded =
        (Failed (RequestValidationError errs), seeded)"
    by blast
  from a b c show ?thesis by (simp only: v)
qed

text \<open>
  Claim C8. Every feedback row persisted through the routes references a company that
  exists: each route preserves the referential integrity of the store, so it holds after
  every run of requests, from the store of the first startup in particular; the row a
  creation persists references an existing company; and a creation request whose
  \<^verbatim>\<open>company_id\<close> is absent or null is refused and leaves the store unchanged.
\<close>

theorem feedback_references_company:
  "(referential_integrity engine \<longrightarrow>
      referential_integrity (snd (app req now engine)) \<and>
      referential_integrity (run reqs engine)) \<and>
   referential_integrity (run reqs seeded) \<and>
   (\<forall>fb engine'. app (POST_feedbacks b) now engine = (Created fb, engine') \<longrightarrow>
      company_resolves engine' (FeedbackBase.company_id fb) \<and>
      engine' = engine\<lparr>table_feedback := table_feedback engine @ [fb]\<rparr>) \<and>
   (company_id_json b = None \<longrightarrow>
      (\<exists>e. app (POST_feedbacks b) now engine = (Failed e, engine)))"
proof (intro conjI impI allI)
  assume "referential_integrity engine"
  then show "referential_integrity (snd (app req now engine))"
    and "referential_integrity (run reqs engine)"
    by (rule app_referential_integrity, rule run_referential_integrity)
next
  show "referential_integrity (run reqs seeded)"
    using referential_integrity_seeded by (rule run_referential_integrity)
next
  fix fb engine'
  assume created: "app (POST_feedbacks b) now engine = (Created fb, engine')"
  from app_POST_cases [of b now engine] created
  obtain d where "company_resolves engine (FeedbackBase.company_id d)"
    and "fb = persisted d now engine"
    and e: "engine' = engine\<lparr>table_feedback := table_feedback engine @ [persisted d now engine]\<rparr>"
    by auto
  then show "company_resolves engine' (FeedbackBase.company_id fb)"
    and "engine' = engine\<lparr>table_feedback := table_feedback engine @ [fb]\<rparr>"
    by (simp_all add: company_resolves_table_feedback company_id_persisted)
next
  assume none: "company_id_json b = None"
  from app_POST_cases [of b now engine]
  show "\<exists>e. app (POST_feedbacks b) now engine = (Failed e, engine)"
  proof (elim disjE exE conjE)
    fix d
    assume "validate_FeedbackCreate b = Inr d"
      and "company_resolves engine (FeedbackBase.company_id d)"
    with none show ?thesis
      using validate_Inr [of b d] by (simp add: company_resolves_def)
  qed blast
qed

theorem feedback_references_company_witness:
  "referential_integrity three_feedbacks \<and>
   referential_integrity (snd (app (POST_feedbacks elogio_4) 103 three_feedbacks)) \<and>
   referential_integrity
     (run [(POST_feedbacks (elogio_4\<lparr>company_id_json := Some 9\<rparr>), 103),
           (POST_feedbacks reclamacao_5, 104)] three_feedbacks) \<and>
   company_id_json (elogio_4\<lparr>company_id_json := None\<rparr>) = None \<and>
   (\<exists>e. app (POST_feedbacks (elogio_4\<lparr>company_id_json := None\<rparr>)) 103 three_feedbacks =
      (Failed e, three_feedbacks)) \<and>
   length (table_feedback three_feedbacks) = 3"
proof -
  have h: "referential_integrity three_feedbacks" by code_simp
  have n: "company_id_json (elogio_4\<lparr>company_id_json := None\<rparr>) = None" by simp
  have l: "length (table_feedback three_feedbacks) = 3" by code_simp
  from feedback_references_company
         [of three_feedbacks "POST_feedbacks elogio_4" 103
             "[(POST_feedbacks (elogio_4\<lparr>company_id_json := Some 9\<rparr>), 103),
               (POST_feedbacks reclamacao_5, 104)]"
             "elogio_4\<lparr>company_id_json := None\<rparr>"] h n l
  show ?thesis by blast
qed


text \<open>
  Claim C9, as the code has it. The type of a feedback is an enum of exactly two
  members, whose values are the strings \<^verbatim>\<open>reclamacao\<close> and \<^verbatim>\<open>elogio\<close>. A creation request
  whose type is neither string is answered with the validation error that reports the
  field; the handler does not run and the store is unchanged. A request whose type is one
  of the two strings passes the validation of the field.
\<close>

theorem feedback_type_validation:
  "(\<forall>t. t = RECLAMACAO \<or> t = ELOGIO) \<and>
   FeedbackType_value RECLAMACAO = ''reclamacao'' \<and>
   FeedbackType_value ELOGIO = ''elogio'' \<and>
   (type_json b \<noteq> ''reclamacao'' \<and> type_json b \<noteq> ''elogio'' \<longrightarrow>
      (\<exists>errs. ''type'' \<in> set errs \<and>
         validate_FeedbackCreate b = Inl (RequestValidationError errs) \<and>
         app (POST_feedbacks b) now engine = (Failed (RequestValidationError errs), engine))) \<and>
   (type_json b = ''reclamacao'' \<or> type_json b = ''elogio'' \<longrightarrow>
      (\<forall>errs. validate_FeedbackCreate b = Inl (RequestValidationError errs) \<longrightarrow>
         ''type'' \<notin> set errs))"
proof (intro conjI impI allI)
  fix t show "t = RECLAMACAO \<or> t = ELOGIO" by (cases t) simp_all
next
  assume "type_json b \<noteq> ''reclamacao'' \<and> type_json b \<noteq> ''elogio''"
  then have "FeedbackType_of_value (type_json b) = None"
    using FeedbackType_of_value_Some [of "type_json b"] by simp
  then obtain errs where "''type'' \<in> set errs"
    and v: "validate_FeedbackCreate b = Inl (RequestValidationError errs)"
    using validate_type_unknown [of b] by blast
  then show "\<exists>errs. ''type'' \<in> set errs \<and>
      validate_FeedbackCreate b = Inl (RequestValidationError errs) \<and>
      app (POST_feedbacks b) now engine = (Failed (RequestValidationError errs), engine)"
    using app_POST_invalid [OF v] by blast
next
  fix errs
  assume "type_json b = ''reclamacao'' \<or> type_json b = ''elogio''"
    and v: "validate_FeedbackCreate b = Inl (RequestValidationError errs)"
  then have "FeedbackType_of_value (type_json b) \<noteq> None"
    using FeedbackType_of_value_Some [of "type_json b"] by simp
  then show "''type'' \<notin> set errs"
    using validate_errors [OF v] by (simp split: if_splits)
qed simp_all

theorem feedback_type_validation_witness:
  "(\<exists>errs. ''type'' \<in> set errs \<and>
      app (POST_feedbacks (elogio_4\<lparr>type_json := ''praise''\<rparr>)) 100 seeded =
        (Failed (RequestValidationError errs), seeded)) \<and>
   ''type'' \<notin> set [''rating''] \<and>
   type_json (reclamacao_5\<lparr>rating_json := 9\<rparr>) = ''reclamacao'' \<and>
   validate_FeedbackCreate (reclamacao_5\<lparr>rating_json := 9\<rparr>) =
     Inl (RequestValidationError [''rating''])"
proof -
  have h: "type_json (elogio_4\<lparr>type_json := ''praise''\<rparr>) \<noteq> ''reclamacao'' \<and>
      type_json (elogio_4\<lparr>type_json := ''praise''\<rparr>) \<noteq> ''elogio''"
    by simp
  have k: "type_json (reclamacao_5\<lparr>rating_json := 9\<rparr>) = ''reclamacao''"
    and v: "validate_FeedbackCreate (reclamacao_5\<lparr>rating_json := 9\<rparr>) =
      Inl (RequestValidationError [''rating''])"
    by code_simp+
  from feedback_type_validation [of "elogio_4\<lparr>type_json := ''praise''\<rparr>" 100 seeded] h
  have a: "\<exists>errs. ''type'' \<in> set errs \<and>
      app (POST_feedbacks (elogio_4\<lparr>type_json := ''praise''\<rparr>)) 100 seeded =
        (Failed (RequestValidationError errs), seeded)"
    by blast
  from feedback_type_validation [of "reclamacao_5\<lparr>rating_json := 9\<rparr>" 100 seeded] k v
  have b: "''type'' \<notin> set [''rating'']"
    by blast
  from a b k v show ?thesis by blast
qed

text \<open>
  The claim as the specification words it, with the values \<^verbatim>\<open>complaint\<close> and
  \<^verbatim>\<open>compliment\<close>, fails: a request of type \<^verbatim>\<open>complaint\<close> or \<^verbatim>\<open>compliment\<close> is refused by
  the validation, and a request of type \<^verbatim>\<open>elogio\<close>, which is neither, is accepted and
  persisted.
\<close>

theorem feedback_type_complaint_counterexample:
  "app (POST_feedbacks (elogio_4\<lparr>type_json := ''complaint''\<rparr>)) 100 seeded =
     (Failed (RequestValidationError [''type'']), seeded) \<and>
   app (POST_feedbacks (elogio_4\<lparr>type_json := ''compliment''\<rparr>)) 100 seeded =
     (Failed (RequestValidationError [''type'']), seeded) \<and>
   type_json elogio_4 = ''elogio'' \<and>
   ''elogio'' \<noteq> ''complaint'' \<and> ''elogio'' \<noteq> ''compliment'' \<and>
   fst (app (POST_feedbacks elogio_4) 100 seeded) =
     Created \<lparr>type = ELOGIO, rating = 4, comment = None, company_id = Some 2,
              id_f = Some 1, timestamp = 100\<rparr>"
  by code_simp

text \<open>
  Claim C10. A GET route leaves the store as it found it, and its answer depends on
  nothing but its arguments and the store: asked again, at any later time and after any
  number of other GET requests, it gives the same answer.
\<close>

theorem GET_read_only:
  "is_GET req \<Longrightarrow> list_all (\<lambda>(r, t). is_GET r) between \<Longrightarrow>
   snd (app req now engine) = engine \<and>
   run between (snd (app req now engine)) = engine \<and>
   fst (app req now' (run between (snd (app req now engine)))) = fst (app req now engine)"
  by (simp add: app_GET_store run_GETs app_GET_clock [of req now' engine now])

theorem GET_read_only_witness:
  "snd (app (GET_company_reputation 2) 103 three_feedbacks) = three_feedbacks \<and>
   fst (app (GET_company_reputation 2) 200
         (run [(GET_companies, 104), (GET_company_feedbacks 2, 105), (GET_root, 106)]
              (snd (app (GET_company_reputation 2) 103 three_feedbacks)))) =
   fst (app (GET_company_reputation 2) 103 three_feedbacks) \<and>
   is_GET (GET_company_reputation 2)"
proof -
  have h: "is_GET (GET_company_reputation 2)" by simp
  have b: "list_all (\<lambda>(r, t). is_GET r)
      [(GET_companies, 104), (GET_company_feedbacks 2, 105), (GET_root, 106)]"
    by simp
  from GET_read_only [OF h b, of 103 three_feedbacks 200] h show ?thesis by blast
qed

section \<open>The rounding of the average\<close>

subsection \<open>Rounding to an integer\<close>

lemma round_half_even_cases:
  fixes y :: rat
  defines "f \<equiv> \<lfloor>y\<rfloor>"
  defines "r \<equiv> y - of_int f"
  shows "0 \<le> r \<and> r < 1 \<and>
    (round_half_even y = f \<and> r \<le> 1 / 2 \<or> round_half_even y = f + 1 \<and> 1 / 2 \<le> r)"
proof -
  have "0 \<le> r" "r < 1" unfolding r_def f_def by linarith+
  moreover have "round_half_even y = f \<and> r \<le> 1 / 2 \<or> round_half_even y = f + 1 \<and> 1 / 2 \<le> r"
    unfolding round_half_even_def Let_def f_def [symmetric] r_def [symmetric]
    by (cases "r < 1 / 2"; cases "1 / 2 < r"; cases "even f") simp_all
  ultimately show ?thesis by simp
qed

lemma round_half_even_error: "\<bar>of_int (round_half_even y) - y\<bar> \<le> 1 / 2"
  using round_half_even_cases [of y] by (auto simp add: abs_le_iff) 

lemma round_half_even_unique:
  assumes "\<bar>of_int k - y\<bar> < 1 / 2"
  shows "round_half_even y = k"
proof -
  let ?m = "round_half_even y"
  have "\<bar>of_int ?m - y\<bar> \<le> 1 / 2" by (rule round_half_even_error)
  with assms have "\<bar>(of_int ?m :: rat) - of_int k\<bar> < 1" by linarith
  then have "\<bar>(of_int (?m - k) :: rat)\<bar> < 1" by simp
  then have "\<bar>?m - k\<bar> < 1" by (simp only: of_int_abs [symmetric] of_int_less_1_iff)
  then show ?thesis by simp
qed

lemma round_half_even_of_int: "round_half_even (of_int k) = k"
  by (rule round_half_even_unique) simp

subsection \<open>The double nearest to a quotient\<close>

lemma bitlen_rat_bounds:
  assumes "0 < a"
  shows "(2::rat) powi (bitlen a - 1) \<le> of_int a" and "of_int a < (2::rat) powi bitlen a"
proof -
  from assms have pos: "1 \<le> bitlen a"
    by (subst compute_bitlen) (simp add: bitlen_nonneg add_increasing)
  from bitlen_bounds [OF assms]
  have lo: "2 ^ nat (bitlen a - 1) \<le> a" and hi: "a < 2 ^ nat (bitlen a)" by simp_all
  have "(2::rat) powi (bitlen a - 1) = of_int (2 ^ nat (bitlen a - 1))"
    using pos by (simp add: power_int_nonneg_exp)
  also have "\<dots> \<le> of_int a" using lo by (simp only: of_int_le_iff)
  finally show "(2::rat) powi (bitlen a - 1) \<le> of_int a" .
  have "(of_int a :: rat) < of_int (2 ^ nat (bitlen a))" using hi by (simp only: of_int_less_iff)
  also have "\<dots> = 2 powi bitlen a"
    using pos by (simp add: power_int_nonneg_exp)
  finally show "of_int a < (2::rat) powi bitlen a" .
qed

lemma floor_log2_bounds:
  assumes "0 < a" and "0 < b"
  shows "(2::rat) powi floor_log2 a b \<le> of_int a / of_int b"
    and "of_int a / of_int b < (2::rat) powi (floor_log2 a b + 1)"
proof -
  let ?q = "of_int a / of_int b :: rat"
  let ?d = "bitlen a - bitlen b"
  have a: "(2::rat) powi (bitlen a - 1) \<le> of_int a" "of_int a < (2::rat) powi bitlen a"
    using bitlen_rat_bounds [OF assms(1)] by simp_all
  have b: "(2::rat) powi (bitlen b - 1) \<le> of_int b" "of_int b < (2::rat) powi bitlen b"
    using bitlen_rat_bounds [OF assms(2)] by simp_all
  have bpos: "(0::rat) < of_int b" using assms(2) by simp
  have apos: "(0::rat) < of_int a" using assms(1) by simp
  have "?q < 2 powi bitlen a / 2 powi (bitlen b - 1)"
    using a(2) b(1) bpos apos by (intro frac_less) simp_all
  also have "\<dots> = 2 powi (?d + 1)"
    by (simp add: power_int_diff power_int_add)
  finally have hi: "?q < 2 powi (?d + 1)" .
  have "(2::rat) powi (?d - 1) = 2 powi (bitlen a - 1) / 2 powi bitlen b"
    by (simp add: power_int_diff)
  also have "\<dots> < ?q"
    using a(1) b(2) bpos apos by (intro frac_less2) simp_all
  finally have lo: "(2::rat) powi (?d - 1) < ?q" .
  show "(2::rat) powi floor_log2 a b \<le> ?q"
    using lo by (simp add: floor_log2_def Let_def)
  show "?q < (2::rat) powi (floor_log2 a b + 1)"
    using hi by (auto simp add: floor_log2_def Let_def)
qed

lemma double_of_quotient_error:
  assumes "0 < b"
  shows "\<bar>double_of_quotient a b - of_int a / of_int b\<bar>
         \<le> \<bar>of_int a / of_int b\<bar> / 2 ^ 53 + 1 / 2 ^ 1075"
proof (cases "a = 0")
  case True
  then show ?thesis by (simp add: double_of_quotient_def)
next
  case False
  define q :: rat where "q = of_int \<bar>a\<bar> / of_int b"
  define e where "e = max (floor_log2 \<bar>a\<bar> b) (- 1022)"
  define u :: rat where "u = 2 powi (e - 52)"
  define m where "m = round_half_even (q / u)"
  have upos: "0 < u" by (simp add: u_def)
  have dq: "double_of_quotient a b = of_int (sgn a) * of_int m * u"
    using False by (simp add: double_of_quotient_def Let_def m_def q_def u_def e_def)
  have quot: "of_int a / of_int b = of_int (sgn a) * (q / u) * u"
    using upos by (simp add: q_def sgn_if abs_if)
  have "double_of_quotient a b - of_int a / of_int b = of_int (sgn a) * (of_int m - q / u) * u"
    by (simp only: dq quot) (simp add: algebra_simps)
  then have "\<bar>double_of_quotient a b - of_int a / of_int b\<bar> = \<bar>of_int m - q / u\<bar> * u"
    using False upos by (simp add: abs_mult sgn_if)
  also have "\<dots> \<le> (1 / 2) * u"
    using upos round_half_even_error [of "q / u"] by (intro mult_right_mono) (simp_all add: m_def)
  also have "(1 / 2) * u = 2 powi (e - 53)"
    by (simp add: u_def power_int_diff)
  finally have err: "\<bar>double_of_quotient a b - of_int a / of_int b\<bar> \<le> 2 powi (e - 53)" .
  have absq: "\<bar>of_int a / of_int b :: rat\<bar> = q"
    using assms by (simp add: q_def)
  have "(2::rat) powi (e - 53) \<le> q / 2 ^ 53 + 1 / 2 ^ 1075"
  proof (cases "- 1022 \<le> floor_log2 \<bar>a\<bar> b")
    case True
    then have "e = floor_log2 \<bar>a\<bar> b" by (simp add: e_def)
    then have "(2::rat) powi e \<le> q"
      using floor_log2_bounds(1) [of "\<bar>a\<bar>" b] False assms by (simp add: q_def)
    then have "(2::rat) powi e / 2 ^ 53 \<le> q / 2 ^ 53"
      by (simp add: divide_right_mono)
    moreover have "(2::rat) powi (e - 53) = 2 powi e / 2 ^ 53"
      by (simp add: power_int_diff)
    ultimately show ?thesis by simp
  next
    case False
    then have "e = - 1022" by (simp add: e_def)
    then have "(2::rat) powi (e - 53) = 1 / 2 ^ 1075"
      by (simp add: power_int_minus field_simps)
    moreover have "0 \<le> q" using assms by (simp add: q_def)
    ultimately show ?thesis by simp
  qed
  with err absq show ?thesis by simp
qed

lemma int_truediv_no_overflow:
  assumes "0 < b" and "\<bar>a\<bar> \<le> b * 2 ^ 63"
  shows "int_truediv a b = Inr (double_of_quotient a b)"
proof -
  let ?q = "of_int a / of_int b :: rat"
  let ?x = "double_of_quotient a b"
  have bpos: "(0::rat) < of_int b" using assms(1) by simp
  have "(of_int \<bar>a\<bar> :: rat) \<le> of_int (b * 2 ^ 63)"
    using assms(2) by (simp only: of_int_le_iff)
  then have "(of_int \<bar>a\<bar> :: rat) / of_int b \<le> 2 ^ 63"
    using bpos by (simp add: field_simps)
  then have q: "\<bar>?q\<bar> \<le> 2 ^ 63"
    using bpos by simp
  have "\<bar>?x\<bar> \<le> \<bar>?q\<bar> + \<bar>?x - ?q\<bar>" by linarith
  also have "\<dots> \<le> \<bar>?q\<bar> + (\<bar>?q\<bar> / 2 ^ 53 + 1 / 2 ^ 1075)"
    using double_of_quotient_error [OF assms(1), of a] by linarith
  also have "\<dots> \<le> 2 ^ 63 + (2 ^ 63 / 2 ^ 53 + 1 / 2 ^ 1075)"
    using q by (intro add_mono divide_right_mono) simp_all
  also have "\<dots> < 2 ^ 1024" by simp
  finally have "\<bar>?x\<bar> < 2 ^ 1024" .
  then show ?thesis
    using assms(1) by (simp add: int_truediv_def Let_def)
qed

lemma hundredths_of_mean:
  assumes n: "0 < n" and s: "200 * \<bar>s\<bar> < 2 ^ 53" and n': "n \<le> 2 ^ 1000"
  defines "k \<equiv> round_half_even (double_of_quotient s n * 10 ^ 2)"
  shows "\<bar>of_int k - 100 * (of_int s / of_int n :: rat)\<bar> \<le> 1 / 2"
proof -
  let ?q = "of_int s / of_int n :: rat"
  let ?x = "double_of_quotient s n"
  have npos: "(0::rat) < of_int n" using n by simp
  have err: "\<bar>?x - ?q\<bar> \<le> \<bar>?q\<bar> / 2 ^ 53 + 1 / 2 ^ 1075"
    by (rule double_of_quotient_error [OF n])
  have absq: "\<bar>?q\<bar> * of_int n = of_int \<bar>s\<bar>"
    using npos by simp
  have "200 * \<bar>s\<bar> \<le> 2 ^ 53 - 1" using s by simp
  then have "(of_int (200 * \<bar>s\<bar>) :: rat) \<le> of_int (2 ^ 53 - 1)"
    by (simp only: of_int_le_iff)
  then have s': "200 * (of_int \<bar>s\<bar> :: rat) \<le> 2 ^ 53 - 1" by simp
  have "(of_int n :: rat) \<le> of_int (2 ^ 1000)"
    using n' by (simp only: of_int_le_iff)
  then have n'': "(of_int n :: rat) \<le> 2 ^ 1000" by simp
  define Q :: rat where "Q = \<bar>?q\<bar>"
  define t :: rat where "t = 1 / 2 ^ 1075"
  have nQ: "of_int n * Q = of_int \<bar>s\<bar>"
    using absq by (simp add: Q_def mult.commute)
  have "200 * of_int n * \<bar>?x - ?q\<bar> \<le> 200 * of_int n * (Q / 2 ^ 53 + t)"
    using err npos unfolding Q_def t_def by (intro mult_left_mono) simp_all
  also have "\<dots> = 200 * (of_int n * Q) / 2 ^ 53 + 200 * of_int n * t"
    by (simp add: algebra_simps)
  also have "\<dots> = 200 * of_int \<bar>s\<bar> / 2 ^ 53 + 200 * of_int n / 2 ^ 1075"
    by (simp only: nQ t_def) simp
  also have "\<dots> \<le> (2 ^ 53 - 1) / 2 ^ 53 + 200 * 2 ^ 1000 / 2 ^ 1075"
    using s' n'' by (intro add_mono divide_right_mono) simp_all
  also have "\<dots> < 1" by simp
  finally have close: "200 * of_int n * \<bar>?x - ?q\<bar> < 1" .
  have "\<bar>of_int k - ?x * 100\<bar> \<le> 1 / 2"
    using round_half_even_error [of "?x * 10 ^ 2"] by (simp add: k_def)
  moreover have "\<bar>of_int k - 100 * ?q\<bar> \<le> \<bar>of_int k - ?x * 100\<bar> + 100 * \<bar>?x - ?q\<bar>"
  proof -
    define kx :: rat where "kx = of_int k - ?x * 100"
    define xq :: rat where "xq = ?x - ?q"
    have "of_int k - 100 * ?q = kx + 100 * xq" by (simp add: kx_def xq_def)
    moreover have "\<bar>kx + 100 * xq\<bar> \<le> \<bar>kx\<bar> + 100 * \<bar>xq\<bar>" by linarith
    ultimately show ?thesis by (simp add: kx_def xq_def)
  qed
  ultimately have "\<bar>of_int k - 100 * ?q\<bar> \<le> 1 / 2 + 100 * \<bar>?x - ?q\<bar>" by linarith
  then have "2 * of_int n * \<bar>of_int k - 100 * ?q\<bar> \<le> 2 * of_int n * (1 / 2 + 100 * \<bar>?x - ?q\<bar>)"
    using npos by (intro mult_left_mono) simp_all
  also have "\<dots> = of_int n + 200 * of_int n * \<bar>?x - ?q\<bar>" by (simp add: algebra_simps)
  also have "\<dots> < of_int n + 1" using close by simp
  finally have lt: "2 * of_int n * \<bar>of_int k - 100 * ?q\<bar> < of_int (n + 1)" by simp
  have "2 * of_int n * \<bar>of_int k - 100 * ?q\<bar> = \<bar>2 * of_int n * (of_int k - 100 * ?q)\<bar>"
    using npos by (simp add: abs_mult)
  also have "2 * of_int n * (of_int k - 100 * ?q) = (of_int (2 * n * k - 200 * s) :: rat)"
    using npos by (simp add: field_simps)
  finally have eq: "2 * of_int n * \<bar>of_int k - 100 * ?q\<bar> = (of_int \<bar>2 * n * k - 200 * s\<bar> :: rat)"
    by simp
  with lt have "(of_int \<bar>2 * n * k - 200 * s\<bar> :: rat) < of_int (n + 1)" by simp
  then have "\<bar>2 * n * k - 200 * s\<bar> < n + 1" by (simp only: of_int_less_iff)
  then have "\<bar>2 * n * k - 200 * s\<bar> \<le> n" by simp
  then have "(of_int \<bar>2 * n * k - 200 * s\<bar> :: rat) \<le> of_int n" by (simp only: of_int_le_iff)
  with eq have "2 * of_int n * \<bar>of_int k - 100 * ?q\<bar> \<le> (of_int n :: rat)" by simp
  then show ?thesis using npos by (simp add: field_simps)
qed

lemma not_halfway_nearest:
  assumes "\<bar>of_int k - y\<bar> \<le> 1 / 2" and "\<not> halfway y"
  shows "k = round_half_up y" and "k = round_half_even y"
proof -
  have "\<bar>of_int k - y\<bar> \<noteq> 1 / 2"
  proof
    assume h: "\<bar>of_int k - y\<bar> = 1 / 2"
    then have "y = of_int k + 1 / 2 \<or> y = of_int (k - 1) + 1 / 2"
      by (auto simp add: abs_if split: if_splits)
    then consider "y = of_int k + 1 / 2" | "y = of_int (k - 1) + 1 / 2"
      by blast
    then have "halfway y"
    proof cases
      case 1
      then have "\<lfloor>y\<rfloor> = k" by (intro floor_unique) simp_all
      with 1 show ?thesis by (simp add: halfway_def)
    next
      case 2
      then have "\<lfloor>y\<rfloor> = k - 1" by (intro floor_unique) simp_all
      with 2 show ?thesis by (simp add: halfway_def)
    qed
    with assms(2) show False by simp
  qed
  with assms(1) have lt: "\<bar>of_int k - y\<bar> < 1 / 2" by simp
  then show "k = round_half_even y" by (simp add: round_half_even_unique)
  from lt have "of_int k \<le> y + 1 / 2" and "y + 1 / 2 < of_int k + 1" by linarith+
  then have "\<lfloor>y + 1 / 2\<rfloor> = k" by (rule floor_unique)
  then show "k = round_half_up y" by (simp add: round_half_up_def)
qed

subsection \<open>The reputation of a company with feedback\<close>

lemma sum_list_int64:
  "list_all int64 rs \<Longrightarrow> \<bar>sum_list rs\<bar> \<le> int (length rs) * 2 ^ 63"
proof (induction rs)
  case Nil
  then show ?case by simp
next
  case (Cons r rs)
  from Cons.prems have "int64 r" and "list_all int64 rs" by simp_all
  from \<open>int64 r\<close> have r: "\<bar>r\<bar> \<le> 2 ^ 63"
    unfolding int64_def by linarith
  from Cons.IH [OF \<open>list_all int64 rs\<close>]
  have "\<bar>sum_list rs\<bar> \<le> int (length rs) * 2 ^ 63" .
  with r have "\<bar>r + sum_list rs\<bar> \<le> 2 ^ 63 + int (length rs) * 2 ^ 63"
    by linarith
  then show ?case by (simp add: algebra_simps)
qed

lemma app_reputation_rated:
  assumes "company_exists engine cid"
    and "ratings_of engine cid \<noteq> []"
    and "\<bar>sum_list (ratings_of engine cid)\<bar> \<le> int (length (ratings_of engine cid)) * 2 ^ 63"
  shows "app (GET_company_reputation cid) now engine =
     (Reputation_of
        \<lparr>company_id_r = cid, company_name = company_name_of engine cid,
         average_rating =
           Some (float_round
                   (double_of_quotient (sum_list (ratings_of engine cid))
                      (int (length (ratings_of engine cid)))) 2),
         total_feedbacks = int (length (ratings_of engine cid)),
         feedback_with_rating_count = int (length (ratings_of engine cid))\<rparr>,
      engine)"
proof -
  let ?rs = "ratings_of engine cid"
  have n: "0 < int (length ?rs)" using assms(2) by simp
  have "int_truediv (sum_list ?rs) (int (length ?rs)) =
      Inr (double_of_quotient (sum_list ?rs) (int (length ?rs)))"
    using n assms(3) by (rule int_truediv_no_overflow)
  then show ?thesis
    using n by (simp add: app_def respond_def reputation_run_known [OF assms(1)] Let_def)
qed

lemma app_reputation_counts:
  assumes "company_exists engine cid"
    and "fst (app (GET_company_reputation cid) now engine) = Reputation_of rep"
  shows "total_feedbacks rep = int (length (feedbacks_of engine cid))"
    and "feedback_with_rating_count rep = int (length (feedbacks_of engine cid))"
  using assms(2)
  by (auto simp add: app_def respond_def reputation_run_known [OF assms(1)] Let_def
      ratings_of_def split: if_splits sum.splits)


section \<open>The claims about the reputation\<close>

text \<open>
  Claim C1, as the code has it. For a company that exists: with no rating the average
  is null. With ratings whose sum \<open>s\<close> and number \<open>n\<close> are not astronomically large
  (\<open>200 * \<bar>s\<bar> < 2 ^ 53\<close>, \<open>n \<le> 2 ^ 1000\<close>), the average is the double nearest to
  \<open>k / 100\<close>, where \<open>k\<close> is the double nearest to \<open>s / n\<close>, times 100, rounded to an
  integer, a tie going to the even one. This \<open>k / 100\<close> is a decimal with two places
  nearest to the exact mean, at most 0.005 from it; whenever the exact mean is not
  halfway between two such decimals, it is the exact mean rounded to two places, by the
  rule that sends a tie up as by the rule that sends it to the even digit. For the
  ratings 4, 5 and 3 the average is 4, and both counts are 3.
\<close>

theorem reputation_average:
  "company_exists engine cid \<Longrightarrow>
   (ratings_of engine cid = [] \<longrightarrow>
      fst (app (GET_company_reputation cid) now engine) =
        Reputation_of
          \<lparr>company_id_r = cid, company_name = company_name_of engine cid,
           average_rating = None, total_feedbacks = 0, feedback_with_rating_count = 0\<rparr>) \<and>
   (ratings_of engine cid \<noteq> [] \<and>
    200 * \<bar>sum_list (ratings_of engine cid)\<bar> < 2 ^ 53 \<and>
    int (length (ratings_of engine cid)) \<le> 2 ^ 1000 \<longrightarrow>
      fst (app (GET_company_reputation cid) now engine) =
        Reputation_of
          \<lparr>company_id_r = cid, company_name = company_name_of engine cid,
           average_rating = Some (double_of_quotient (hundredths (ratings_of engine cid)) 100),
           total_feedbacks = int (length (ratings_of engine cid)),
           feedback_with_rating_count = int (length (ratings_of engine cid))\<rparr> \<and>
      \<bar>of_int (hundredths (ratings_of engine cid)) - 100 * mean (ratings_of engine cid)\<bar>
        \<le> 1 / 2 \<and>
      (\<not> halfway (100 * mean (ratings_of engine cid)) \<longrightarrow>
         hundredths (ratings_of engine cid) = round_half_up (100 * mean (ratings_of engine cid)) \<and>
         hundredths (ratings_of engine cid) =
           round_half_even (100 * mean (ratings_of engine cid)))) \<and>
   (ratings_of engine cid = [4, 5, 3] \<longrightarrow>
      fst (app (GET_company_reputation cid) now engine) =
        Reputation_of
          \<lparr>company_id_r = cid, company_name = company_name_of engine cid,
           average_rating = Some 4, total_feedbacks = 3, feedback_with_rating_count = 3\<rparr>)"
proof (intro conjI impI)
  assume "company_exists engine cid" and "ratings_of engine cid = []"
  then show "fst (app (GET_company_reputation cid) now engine) =
      Reputation_of
        \<lparr>company_id_r = cid, company_name = company_name_of engine cid,
         average_rating = None, total_feedbacks = 0, feedback_with_rating_count = 0\<rparr>"
    by (simp add: app_def respond_def reputation_run_known)
next
  let ?rs = "ratings_of engine cid"
  let ?n = "int (length ?rs)"
  assume ex: "company_exists engine cid"
    and h: "?rs \<noteq> [] \<and> 200 * \<bar>sum_list ?rs\<bar> < 2 ^ 53 \<and> ?n \<le> 2 ^ 1000"
  then have n: "0 < ?n" by simp
  from n have "1 \<le> ?n" by linarith
  then have "1 * 2 ^ 63 \<le> ?n * 2 ^ 63" by (rule mult_right_mono) simp
  moreover from h have "\<bar>sum_list ?rs\<bar> \<le> 1 * 2 ^ 63" by simp
  ultimately have small: "\<bar>sum_list ?rs\<bar> \<le> ?n * 2 ^ 63" by linarith
  have "float_round (double_of_quotient (sum_list ?rs) ?n) 2 =
      double_of_quotient (hundredths ?rs) 100"
    by (simp add: float_round_def hundredths_def)
  then show "fst (app (GET_company_reputation cid) now engine) =
      Reputation_of
        \<lparr>company_id_r = cid, company_name = company_name_of engine cid,
         average_rating = Some (double_of_quotient (hundredths ?rs) 100),
         total_feedbacks = ?n, feedback_with_rating_count = ?n\<rparr>"
    using h by (simp add: app_reputation_rated [OF ex _ small])
  from h have s: "200 * \<bar>sum_list ?rs\<bar> < 2 ^ 53" and n': "?n \<le> 2 ^ 1000" by simp_all
  from hundredths_of_mean [OF n s n']
  show near: "\<bar>of_int (hundredths ?rs) - 100 * mean ?rs\<bar> \<le> 1 / 2"
    by (simp add: hundredths_def mean_def)
  {
    assume "\<not> halfway (100 * mean ?rs)"
    with near show "hundredths ?rs = round_half_up (100 * mean ?rs)"
      and "hundredths ?rs = round_half_even (100 * mean ?rs)"
      by (rule not_halfway_nearest)+
  }
next
  let ?rs = "ratings_of engine cid"
  assume ex: "company_exists engine cid" and rs: "?rs = [4, 5, 3]"
  have four: "float_round (double_of_quotient 12 3) 2 = 4" by code_simp
  have "\<bar>sum_list ?rs\<bar> \<le> int (length ?rs) * 2 ^ 63" by (simp add: rs)
  from app_reputation_rated [OF ex _ this, of now] rs four
  show "fst (app (GET_company_reputation cid) now engine) =
      Reputation_of
        \<lparr>company_id_r = cid, company_name = company_name_of engine cid,
         average_rating = Some 4, total_feedbacks = 3, feedback_with_rating_count = 3\<rparr>"
    by simp
qed

theorem reputation_average_witness:
  "company_exists three_feedbacks 2 \<and> ratings_of three_feedbacks 2 = [4, 5, 3] \<and>
   mean [4, 5, 3] = 4 \<and> hundredths [4, 5, 3] = 400 \<and>
   double_of_quotient 400 100 = 4 \<and>
   fst (app (GET_company_reputation 2) 103 three_feedbacks) =
     Reputation_of
       \<lparr>company_id_r = 2, company_name = ''Consultoria Beta DB'',
        average_rating = Some 4, total_feedbacks = 3, feedback_with_rating_count = 3\<rparr> \<and>
   \<bar>of_int (hundredths [4, 5, 3]) - 100 * mean [4, 5, 3]\<bar> \<le> (1 / 2 :: rat)"
proof -
  have ex: "company_exists three_feedbacks 2" by code_simp
  have rs: "ratings_of three_feedbacks 2 = [4, 5, 3]" by code_simp
  have nm: "company_name_of three_feedbacks 2 = ''Consultoria Beta DB''" by code_simp
  have m: "mean [4, 5, 3] = 4" by code_simp
  have k: "hundredths [4, 5, 3] = 400" by code_simp
  have d: "double_of_quotient 400 100 = 4" by code_simp
  have h: "ratings_of three_feedbacks 2 \<noteq> [] \<and>
      200 * \<bar>sum_list (ratings_of three_feedbacks 2)\<bar> < 2 ^ 53 \<and>
      int (length (ratings_of three_feedbacks 2)) \<le> 2 ^ 1000"
    by (simp add: rs)
  from reputation_average [OF ex, of 103] rs
  have a: "fst (app (GET_company_reputation 2) 103 three_feedbacks) =
      Reputation_of
        \<lparr>company_id_r = 2, company_name = company_name_of three_feedbacks 2,
         average_rating = Some 4, total_feedbacks = 3, feedback_with_rating_count = 3\<rparr>"
    by blast
  from reputation_average [OF ex, of 103] h
  have b: "\<bar>of_int (hundredths (ratings_of three_feedbacks 2)) -
      100 * mean (ratings_of three_feedbacks 2)\<bar> \<le> (1 / 2 :: rat)"
    by blast
  from a b show ?thesis by (simp add: ex rs nm m k d)
qed

text \<open>
  The claim as the specification words it, the exact quotient rounded to two places,
  fails. After forty feedbacks for company 1, thirty-seven rated 1 and three rated 2,
  the exact mean is 43/40 = 1.075, which rounds to 1.08, by the rule that sends a tie
  up as by the rule that sends it to the even digit. The reputation reports the double
  nearest to 1.07: the double nearest to 43/40 lies below 1.075.
\<close>

theorem reputation_average_tie_counterexample:
  "ratings_of forty_feedbacks 1 = replicate 37 1 @ replicate 3 2 \<and>
   mean (ratings_of forty_feedbacks 1) = 43 / 40 \<and>
   round_half_up (100 * (43 / 40)) = 108 \<and>
   round_half_even (100 * (43 / 40)) = 108 \<and>
   fst (app (GET_company_reputation 1) 140 forty_feedbacks) =
     Reputation_of
       \<lparr>company_id_r = 1, company_name = ''Empresa Alpha DB'',
        average_rating = Some (double_of_quotient 107 100),
        total_feedbacks = 40, feedback_with_rating_count = 40\<rparr> \<and>
   double_of_quotient 107 100 = 4818851601286431 / 4503599627370496 \<and>
   double_of_quotient 107 100 < 1071 / 1000 \<and>
   double_of_quotient 108 100 = 4863887597560136 / 4503599627370496 \<and>
   double_of_quotient 43 40 < 43 / 40"
  by code_simp

text \<open>
  Claim C2. For a company that exists, the two counts of a reputation, computed from
  two queries, are equal, and equal to the number of the company's feedback rows: a
  rating is a field of every row. With ratings in the range of the store's integers the
  reputation is computed and returned.
\<close>

theorem reputation_counts_agree:
  "company_exists engine cid \<Longrightarrow>
   (\<forall>rep. fst (app (GET_company_reputation cid) now engine) = Reputation_of rep \<longrightarrow>
      total_feedbacks rep = feedback_with_rating_count rep \<and>
      total_feedbacks rep = int (length (feedbacks_of engine cid))) \<and>
   (list_all int64 (ratings_of engine cid) \<longrightarrow>
      (\<exists>rep. fst (app (GET_company_reputation cid) now engine) = Reputation_of rep))"
proof (intro conjI impI allI)
  fix rep
  assume ex: "company_exists engine cid"
    and rep: "fst (app (GET_company_reputation cid) now engine) = Reputation_of rep"
  from app_reputation_counts [OF ex rep]
  show "total_feedbacks rep = feedback_with_rating_count rep"
    and "total_feedbacks rep = int (length (feedbacks_of engine cid))"
    by simp_all
next
  assume ex: "company_exists engine cid" and r: "list_all int64 (ratings_of engine cid)"
  show "\<exists>rep. fst (app (GET_company_reputation cid) now engine) = Reputation_of rep"
  proof (cases "ratings_of engine cid = []")
    case True
    then show ?thesis
      using ex by (simp add: app_def respond_def reputation_run_known)
  next
    case False
    from app_reputation_rated [OF ex False sum_list_int64 [OF r], of now]
    show ?thesis by simp
  qed
qed

theorem reputation_counts_agree_witness:
  "company_exists three_feedbacks 2 \<and> list_all int64 (ratings_of three_feedbacks 2) \<and>
   length (feedbacks_of three_feedbacks 2) = 3 \<and>
   (\<exists>rep. fst (app (GET_company_reputation 2) 103 three_feedbacks) = Reputation_of rep \<and>
      total_feedbacks rep = feedback_with_rating_count rep \<and>
      total_feedbacks rep = 3)"
proof -
  have ex: "company_exists three_feedbacks 2" by code_simp
  have r: "list_all int64 (ratings_of three_feedbacks 2)" by code_simp
  have l: "length (feedbacks_of three_feedbacks 2) = 3" by code_simp
  from reputation_counts_agree [OF ex, of 103] r l ex show ?thesis by auto
qed


end
